theory Spec2Isabelle
  imports Main
begin

section \<open>JavaScript values used by the pages\<close>

text \<open>
  A value of type \<^verbatim>\<open>string | null\<close> (or an absent property) is a \<open>string option\<close>.
  JavaScript treats \<^verbatim>\<open>null\<close>, \<^verbatim>\<open>undefined\<close> and the empty string as falsy; \<open>truthy\<close> is
  the test that \<^verbatim>\<open>!x\<close>, \<^verbatim>\<open>x && ...\<close> and \<^verbatim>\<open>x ? a : b\<close> perform on such a value,
  \<open>or_null\<close> is \<^verbatim>\<open>x || null\<close> and \<open>or_str\<close> is \<^verbatim>\<open>x || "d"\<close>.
\<close>

definition truthy :: "string option \<Rightarrow> bool" where
  "truthy v = (case v of None \<Rightarrow> False | Some s \<Rightarrow> s \<noteq> [])"

definition or_null :: "string option \<Rightarrow> string option" where
  "or_null v = (if truthy v then v else None)"

definition or_str :: "string option \<Rightarrow> string \<Rightarrow> string" where
  "or_str v d = (case v of None \<Rightarrow> d | Some s \<Rightarrow> if s = [] then d else s)"

text \<open>A thrown value: an \<^verbatim>\<open>Error\<close> object with its message, or anything else.\<close>

datatype thrown = Error (message: string) | NotAnError

text \<open>How a promise settles.\<close>

datatype 'a settled = Resolved 'a | Rejected thrown

text \<open>Decimal rendering of a non-negative integer, as a template literal prints it.\<close>

fun show_nat :: "nat \<Rightarrow> string" where
  "show_nat n =
     (if n < 10 then [''0123456789'' ! n]
      else show_nat (n div 10) @ [''0123456789'' ! (n mod 10)])"

declare show_nat.simps [simp del]

section \<open>chatService\<close>

text \<open>
  What \<^verbatim>\<open>fetch\<close> is called with. \<open>req_body\<close> is the \<^verbatim>\<open>text\<close> that
  \<^verbatim>\<open>JSON.stringify({ text })\<close> serialises (the serialisation itself is the platform's).
\<close>

record request =
  req_url :: string
  req_method :: string
  req_headers :: "(string \<times> string) list"
  req_body :: "string option"

text \<open>
  What the awaited \<^verbatim>\<open>fetch\<close> gives when it resolves: the fields \<^verbatim>\<open>ok\<close> and
  \<^verbatim>\<open>status\<close>, and how \<^verbatim>\<open>res.text()\<close> and \<^verbatim>\<open>res.json()\<close> settle (\<open>Inl\<close>: the promise
  rejects, as \<^verbatim>\<open>res.json()\<close> does on a body that is not JSON). The type \<open>'j\<close> is the
  parsed JSON value.
\<close>

record 'j response =
  ok :: bool
  status :: nat
  text_result :: "thrown + string"
  json_result :: "thrown + 'j"

text \<open>\<^verbatim>\<open>token ? { Authorization: `Bearer ${token}` } : {}\<close>\<close>

definition authHeader :: "string option \<Rightarrow> (string \<times> string) list" where
  "authHeader token =
     (case token of
        None \<Rightarrow> []
      | Some t \<Rightarrow> if t = [] then [] else [(''Authorization'', ''Bearer '' @ t)])"

definition getChats_request :: "string option \<Rightarrow> nat \<Rightarrow> request" where
  "getChats_request token limit =
     \<lparr>req_url = ''http://localhost:8000/chats?limit='' @ show_nat limit,
      req_method = ''GET'',
      req_headers = authHeader token,
      req_body = None\<rparr>"

text \<open>
  \<open>getChats token fetch limit\<close>: \<open>token\<close> is what
  \<^verbatim>\<open>localStorage.getItem("access_token")\<close> returns, \<open>fetch\<close> is how the awaited
  \<^verbatim>\<open>fetch\<close> settles for a request (\<open>Inl\<close>: it rejects, no response), and the result is how
  the promise of \<^verbatim>\<open>getChats\<close> settles.
\<close>

definition getChats ::
  "string option \<Rightarrow> (request \<Rightarrow> thrown + 'j response) \<Rightarrow> nat \<Rightarrow> 'j settled" where
  "getChats token fetch limit =
     (case fetch (getChats_request token limit) of
        Inl e \<Rightarrow> Rejected e
      | Inr res \<Rightarrow>
          if \<not> ok res
          then Rejected (Error (''Failed to fetch chats: '' @ show_nat (status res)))
          else (case json_result res of
                  Inl e \<Rightarrow> Rejected e
                | Inr data \<Rightarrow> Resolved data))"

definition saveChat_request :: "string option \<Rightarrow> string \<Rightarrow> request" where
  "saveChat_request token txt =
     \<lparr>req_url = ''http://localhost:8000/chats'',
      req_method = ''POST'',
      req_headers = (''Content-Type'', ''application/json'') # authHeader token,
      req_body = Some txt\<rparr>"

definition saveChat ::
  "string option \<Rightarrow> (request \<Rightarrow> thrown + 'j response) \<Rightarrow> string \<Rightarrow> 'j settled" where
  "saveChat token fetch txt =
     (case fetch (saveChat_request token txt) of
        Inl e \<Rightarrow> Rejected e
      | Inr res \<Rightarrow>
          if \<not> ok res
          then (case text_result res of
                  Inl e \<Rightarrow> Rejected e
                | Inr body \<Rightarrow>
                    Rejected (Error (''Failed to save chat: '' @ show_nat (status res)
                                     @ '' '' @ body)))
          else (case json_result res of
                  Inl e \<Rightarrow> Rejected e
                | Inr data \<Rightarrow> Resolved data))"

text \<open>A \<^verbatim>\<open>fetch\<close> that settles in the same way for every request.\<close>

definition fetch_gives :: "thrown + 'j response \<Rightarrow> request \<Rightarrow> thrown + 'j response" where
  "fetch_gives out req = out"

section \<open>The evaluation-plot lightbox of the Hero section\<close>

text \<open>
  The component state of \<^verbatim>\<open>Hero\<close> (the two hover flags only feed CSS and are left out):
  \<^verbatim>\<open>modalOpen\<close>, \<^verbatim>\<open>evalImages\<close>, \<^verbatim>\<open>evalIndex\<close>, \<^verbatim>\<open>zoomed\<close>.
\<close>

datatype modal = Asr | Mt | Tts

record hero =
  modalOpen :: "modal option"
  evalImages :: "string list option"
  evalIndex :: int
  zoomed :: bool

definition Hero_init :: hero where
  "Hero_init = \<lparr>modalOpen = None, evalImages = None, evalIndex = 0, zoomed = False\<rparr>"

text \<open>
  The three "Evaluation Plots" buttons run
  \<^verbatim>\<open>setEvalImages([...]); setEvalIndex(0); setZoomed(false)\<close>.
\<close>

definition openPlots :: "string list \<Rightarrow> hero \<Rightarrow> hero" where
  "openPlots imgs s = s\<lparr>evalImages := Some imgs, evalIndex := 0, zoomed := False\<rparr>"

definition asrPlots :: "string list" where
  "asrPlots = [''/asrcombined.png'']"

definition mtPlots :: "string list" where
  "mtPlots = [''/mt_combined.png'']"

definition ttsPlots :: "string list" where
  "ttsPlots = [''/tts_mos.png'', ''/tts_rtf.png'']"

text \<open>
  The updaters of the previous and next buttons:
  \<^verbatim>\<open>setEvalIndex((i) => Math.max(0, i - 1))\<close> and
  \<^verbatim>\<open>setEvalIndex((i) => Math.min(evalImages.length - 1, i + 1))\<close>.
\<close>

definition prevIndex :: "int \<Rightarrow> int" where
  "prevIndex i = max 0 (i - 1)"

definition nextIndex :: "string list \<Rightarrow> int \<Rightarrow> int" where
  "nextIndex imgs i = min (int (length imgs) - 1) (i + 1)"

datatype hero_event =
    LearnMore modal
  | CloseModal
  | OpenAsrPlots
  | OpenMtPlots
  | OpenTtsPlots
  | ClickPrev
  | ClickNext
  | ToggleZoom
  | CloseLightbox

text \<open>
  One user action. The lightbox and its buttons exist only while \<^verbatim>\<open>evalImages\<close> is
  not null; the previous and next buttons are rendered only when there is more than one
  image, and each is disabled at its end of the list (a disabled button does not run its
  handler).
\<close>

definition hero_step :: "hero_event \<Rightarrow> hero \<Rightarrow> hero" where
  "hero_step e s =
     (case e of
        LearnMore m \<Rightarrow> s\<lparr>modalOpen := Some m\<rparr>
      | CloseModal \<Rightarrow> s\<lparr>modalOpen := None\<rparr>
      | OpenAsrPlots \<Rightarrow> openPlots asrPlots s
      | OpenMtPlots \<Rightarrow> openPlots mtPlots s
      | OpenTtsPlots \<Rightarrow> openPlots ttsPlots s
      | ClickPrev \<Rightarrow>
          (case evalImages s of
             None \<Rightarrow> s
           | Some imgs \<Rightarrow>
               if length imgs > 1 \<and> evalIndex s \<noteq> 0
               then s\<lparr>evalIndex := prevIndex (evalIndex s)\<rparr> else s)
      | ClickNext \<Rightarrow>
          (case evalImages s of
             None \<Rightarrow> s
           | Some imgs \<Rightarrow>
               if length imgs > 1 \<and> evalIndex s \<noteq> int (length imgs) - 1
               then s\<lparr>evalIndex := nextIndex imgs (evalIndex s)\<rparr> else s)
      | ToggleZoom \<Rightarrow>
          (case evalImages s of
             None \<Rightarrow> s
           | Some imgs \<Rightarrow> s\<lparr>zoomed := \<not> zoomed s\<rparr>)
      | CloseLightbox \<Rightarrow>
          (case evalImages s of
             None \<Rightarrow> s
           | Some imgs \<Rightarrow> s\<lparr>evalImages := None\<rparr>))"

fun hero_run :: "hero_event list \<Rightarrow> hero \<Rightarrow> hero" where
  "hero_run [] s = s"
| "hero_run (e # es) s = hero_run es (hero_step e s)"

text \<open>
  The read \<^verbatim>\<open>evalImages[evalIndex]\<close> of the open lightbox. Out of range a JavaScript
  array read gives \<^verbatim>\<open>undefined\<close>, here \<open>None\<close>.
\<close>

definition js_nth :: "'a list \<Rightarrow> int \<Rightarrow> 'a option" where
  "js_nth xs i = (if 0 \<le> i \<and> i < int (length xs) then Some (xs ! nat i) else None)"

definition hero_inv :: "hero \<Rightarrow> bool" where
  "hero_inv s =
     (case evalImages s of
        None \<Rightarrow> True
      | Some imgs \<Rightarrow> 0 \<le> evalIndex s \<and> evalIndex s < int (length imgs))"

section \<open>Timers and timed events\<close>

text \<open>
  \<^verbatim>\<open>window.setInterval\<close> and \<^verbatim>\<open>setTimeout\<close> put a callback into the browser's timer
  queue and return its handle, a positive integer. A queue entry holds the handle, the
  time (in milliseconds) at which the callback is due, and the callback, which each page
  gives as a constructor of its own action type.
\<close>

datatype 'a timer = Timer (tid: nat) (due: nat) (act: 'a)

text \<open>\<^verbatim>\<open>clearInterval(i)\<close>, and the removal of a timeout that has fired.\<close>

definition clearTimer :: "nat \<Rightarrow> 'a timer list \<Rightarrow> 'a timer list" where
  "clearTimer i ts = filter (\<lambda>t. tid t \<noteq> i) ts"

text \<open>An interval that has fired is due again one period later.\<close>

definition reschedule :: "nat \<Rightarrow> nat \<Rightarrow> 'a timer list \<Rightarrow> 'a timer list" where
  "reschedule i period ts =
     map (\<lambda>t. if tid t = i then Timer (tid t) (due t + period) (act t) else t) ts"

text \<open>
  What happens to a page, in order: \<open>Fire i r\<close> lets the timer with handle \<open>i\<close> fire at
  the time it is due (\<open>r\<close> is the random draw its callback may take), \<open>At t e\<close> is an
  event from outside (a user action, a promise settling) at time \<open>t\<close>. Timers are taken
  to fire exactly when due. A step function returns \<open>None\<close> on a schedule that cannot
  happen: time running backwards, a timer firing while another one is due earlier, or
  an outside event placed after a timer that is due earlier and has not fired. Between
  two steps the page is rendered, so every handler sees the state the previous step
  left.
\<close>

datatype 'e timed = Fire nat nat | At nat 'e

fun run :: "('e \<Rightarrow> 's \<Rightarrow> 's option) \<Rightarrow> 'e list \<Rightarrow> 's \<Rightarrow> 's option" where
  "run step [] s = Some s"
| "run step (e # es) s = (case step e s of None \<Rightarrow> None | Some s' \<Rightarrow> run step es s')"

section \<open>The MT page\<close>

datatype mt_model = Google | Indictrans | Nllb

text \<open>
  \<^verbatim>\<open>location.state\<close> as the Chat page's Continue button builds it, and the state the MT
  page hands to \<^verbatim>\<open>/tts\<close>.
\<close>

datatype mt_location =
  MtLocation (loc_transcription: "string option") (loc_language: "string option")
    (loc_audioUrl: "string option")


text \<open>The resolved value of \<^verbatim>\<open>mtService.translate\<close>: only \<^verbatim>\<open>res.translation\<close> is read.\<close>

datatype mt_response = MtResponse (translation: string)

text \<open>
  The two timer callbacks of the page: the body of the progress interval, and
  \<^verbatim>\<open>() => setMtProgress(null)\<close>.
\<close>

datatype mt_action = MtTick | MtReset

text \<open>
  A pending \<^verbatim>\<open>mtService.translate(transcription, srcLang, tgtLang, model)\<close> with what
  the code after the \<^verbatim>\<open>await\<close> closes over: the handle \<^verbatim>\<open>mtInterval\<close>.
\<close>

datatype mt_call =
  MtCall (call_id: nat) (call_interval: nat) (call_text: string) (call_src: string)
    (call_tgt: string) (call_model: mt_model)

text \<open>
  The page: the three values read from \<^verbatim>\<open>location.state\<close>, the React state
  (\<^verbatim>\<open>copied\<close> and the clipboard handler are left out), and the runtime around it: the
  clock, the timer queue, the pending calls, \<^verbatim>\<open>localStorage\<close>'s \<^verbatim>\<open>access_token\<close>, the
  texts handed to \<^verbatim>\<open>chatService.saveChat\<close>, and \<open>mt_emitted\<close>, the values
  \<^verbatim>\<open>setMtProgress\<close> has set, in call order.
\<close>

record mt_page =
  transcription :: "string option"
  language :: "string option"
  audioUrl :: "string option"
  srcLang :: string
  tgtLang :: string
  model :: mt_model
  loading :: bool
  result :: "string option"
  error :: "string option"
  mtProgress :: "int option"
  mt_now :: nat
  mt_timers :: "mt_action timer list"
  mt_nextTimer :: nat
  mt_calls :: "mt_call list"
  mt_nextCall :: nat
  mt_token :: "string option"
  mt_saved :: "string list"
  mt_emitted :: "int option list"

text \<open>
  Mounting the page. \<^verbatim>\<open>(location.state as any) || {}\<close>: without a location state every
  property is undefined.
\<close>

definition MT_init :: "mt_location option \<Rightarrow> string option \<Rightarrow> mt_page" where
  "MT_init loc token =
     (let transcription0 = (case loc of None \<Rightarrow> None | Some l \<Rightarrow> or_null (loc_transcription l));
          language0 = (case loc of None \<Rightarrow> None | Some l \<Rightarrow> or_null (loc_language l));
          audioUrl0 = (case loc of None \<Rightarrow> None | Some l \<Rightarrow> or_null (loc_audioUrl l))
      in \<lparr>transcription = transcription0, language = language0, audioUrl = audioUrl0,
           srcLang = or_str language0 ''en'', tgtLang = ''hi'', model = Indictrans,
           loading = False, result = None, error = None, mtProgress = None,
           mt_now = 0, mt_timers = [], mt_nextTimer = 1, mt_calls = [], mt_nextCall = 0,
           mt_token = token, mt_saved = [], mt_emitted = []\<rparr>)"

definition setMtProgress :: "(int option \<Rightarrow> int option) \<Rightarrow> mt_page \<Rightarrow> mt_page" where
  "setMtProgress f s =
     s\<lparr>mtProgress := f (mtProgress s), mt_emitted := mt_emitted s @ [f (mtProgress s)]\<rparr>"

text \<open>
  The updater of the interval. \<open>r\<close> is the draw: \<^verbatim>\<open>Math.floor(Math.random() * 8)\<close> is
  \<open>r mod 8\<close>, any of 0 to 7.
  \<^verbatim>\<open>
      if (p === null) return 1
      const next = p + Math.floor(Math.random() * 8) + 3
      return next >= 90 ? 90 : next
  \<close>
\<close>

definition mt_tick :: "nat \<Rightarrow> int option \<Rightarrow> int" where
  "mt_tick r p =
     (case p of
        None \<Rightarrow> 1
      | Some p \<Rightarrow> (let next = p + int (r mod 8) + 3 in if next \<ge> 90 then 90 else next))"

text \<open>\<^verbatim>\<open>Math.min(mtProgress, 100)\<close>, what the progress bar shows.\<close>

definition rendered :: "int \<Rightarrow> int" where
  "rendered p = min p 100"

text \<open>\<^verbatim>\<open>setInterval\<close> and \<^verbatim>\<open>setTimeout\<close>; the handle returned is \<open>mt_nextTimer s\<close>.\<close>

definition mt_setTimer :: "mt_action \<Rightarrow> nat \<Rightarrow> mt_page \<Rightarrow> mt_page" where
  "mt_setTimer a delay s =
     s\<lparr>mt_timers := mt_timers s @ [Timer (mt_nextTimer s) (mt_now s + delay) a],
       mt_nextTimer := Suc (mt_nextTimer s)\<rparr>"

text \<open>\<^verbatim>\<open>handleTranslate\<close> up to its \<^verbatim>\<open>await\<close>.\<close>

definition handleTranslate :: "mt_page \<Rightarrow> mt_page" where
  "handleTranslate s =
     (case transcription s of
        None \<Rightarrow> s
      | Some t \<Rightarrow>
          if t = [] then s
          else
            (let mtInterval = mt_nextTimer s;
                 s1 = setMtProgress (\<lambda>_. Some 0) (s\<lparr>loading := True\<rparr>);
                 s2 = mt_setTimer MtTick 300 s1;
                 s3 = s2\<lparr>error := None\<rparr>
             in s3\<lparr>mt_calls := mt_calls s3 @
                       [MtCall (mt_nextCall s3) mtInterval t (srcLang s) (tgtLang s) (model s)],
                   mt_nextCall := Suc (mt_nextCall s3)\<rparr>))"

text \<open>
  The \<^verbatim>\<open>finally\<close> block:
  \<^verbatim>\<open>
      setMtProgress(100)
      setTimeout(() => setMtProgress(null), 700)
      if (mtInterval) clearInterval(mtInterval)
      setLoading(false)
  \<close>
\<close>

definition mt_finally :: "nat \<Rightarrow> mt_page \<Rightarrow> mt_page" where
  "mt_finally mtInterval s =
     (let s1 = setMtProgress (\<lambda>_. Some 100) s;
          s2 = mt_setTimer MtReset 700 s1;
          s3 = (if mtInterval = 0 then s2
                else s2\<lparr>mt_timers := clearTimer mtInterval (mt_timers s2)\<rparr>)
      in s3\<lparr>loading := False\<rparr>)"

text \<open>
  The detached persistence block: it returns at once without a token, and otherwise
  calls \<^verbatim>\<open>chatService.saveChat(res.translation)\<close>, whose failure is only logged.
\<close>

definition mt_persist :: "string \<Rightarrow> mt_page \<Rightarrow> mt_page" where
  "mt_persist t s = (if truthy (mt_token s) then s\<lparr>mt_saved := mt_saved s @ [t]\<rparr> else s)"

text \<open>\<^verbatim>\<open>e?.message || 'Translation failed'\<close>\<close>

definition mt_error_message :: "thrown \<Rightarrow> string" where
  "mt_error_message e =
     (case e of
        Error m \<Rightarrow> if m = [] then ''Translation failed'' else m
      | NotAnError \<Rightarrow> ''Translation failed'')"

text \<open>\<^verbatim>\<open>handleTranslate\<close> from the point where the awaited call settles.\<close>

definition translateSettled :: "mt_call \<Rightarrow> thrown + mt_response \<Rightarrow> mt_page \<Rightarrow> mt_page" where
  "translateSettled c out s =
     (case out of
        Inr res \<Rightarrow>
          mt_finally (call_interval c)
            (mt_persist (translation res) (s\<lparr>result := Some (translation res)\<rparr>))
      | Inl e \<Rightarrow>
          mt_finally (call_interval c) (s\<lparr>error := Some (mt_error_message e)\<rparr>))"

datatype mt_event =
    ClickTranslate
  | SelectSrcLang string
  | SelectTgtLang string
  | SelectModel mt_model
  | TranslateSettles nat "thrown + mt_response"

text \<open>
  The controls are rendered only with a transcription, and the Translate button is
  disabled while \<^verbatim>\<open>loading\<close>. \<open>TranslateSettles k out\<close> settles the pending call \<open>k\<close>.
\<close>

definition mt_handle :: "mt_event \<Rightarrow> mt_page \<Rightarrow> mt_page" where
  "mt_handle e s =
     (case e of
        ClickTranslate \<Rightarrow>
          if truthy (transcription s) \<and> \<not> loading s then handleTranslate s else s
      | SelectSrcLang l \<Rightarrow> if truthy (transcription s) then s\<lparr>srcLang := l\<rparr> else s
      | SelectTgtLang l \<Rightarrow> if truthy (transcription s) then s\<lparr>tgtLang := l\<rparr> else s
      | SelectModel m \<Rightarrow> if truthy (transcription s) then s\<lparr>model := m\<rparr> else s
      | TranslateSettles k out \<Rightarrow>
          (case find (\<lambda>c. call_id c = k) (mt_calls s) of
             None \<Rightarrow> s
           | Some c \<Rightarrow>
               translateSettled c out
                 (s\<lparr>mt_calls := filter (\<lambda>c'. call_id c' \<noteq> k) (mt_calls s)\<rparr>)))"

definition mt_fire :: "nat \<Rightarrow> mt_action timer \<Rightarrow> mt_page \<Rightarrow> mt_page" where
  "mt_fire r t s =
     (case act t of
        MtTick \<Rightarrow>
          setMtProgress (\<lambda>p. Some (mt_tick r p))
            (s\<lparr>mt_timers := reschedule (tid t) 300 (mt_timers s)\<rparr>)
      | MtReset \<Rightarrow>
          setMtProgress (\<lambda>_. None) (s\<lparr>mt_timers := clearTimer (tid t) (mt_timers s)\<rparr>))"

definition mt_step :: "mt_event timed \<Rightarrow> mt_page \<Rightarrow> mt_page option" where
  "mt_step ev s =
     (case ev of
        Fire i r \<Rightarrow>
          (case find (\<lambda>x. tid x = i) (mt_timers s) of
             None \<Rightarrow> None
           | Some t \<Rightarrow>
               if list_ex (\<lambda>x. due x < due t) (mt_timers s) then None
               else Some (mt_fire r t (s\<lparr>mt_now := due t\<rparr>)))
      | At t e \<Rightarrow>
          if t < mt_now s \<or> list_ex (\<lambda>x. due x < t) (mt_timers s) then None
          else Some (mt_handle e (s\<lparr>mt_now := t\<rparr>)))"



section \<open>The Chat page\<close>

text \<open>
  A recorded \<^verbatim>\<open>Blob\<close>, by what \<^verbatim>\<open>URL.createObjectURL\<close> gives for it (\<open>None\<close>: the call
  throws, which the handler catches and ignores), and an uploaded \<^verbatim>\<open>File\<close>, by its name.
\<close>

datatype blob = Blob (objectURL: "string option")

datatype js_file = File (file_name: string)

text \<open>
  The service method \<^verbatim>\<open>handleSend\<close> awaits: \<^verbatim>\<open>processMicrophoneAudio\<close>,
  \<^verbatim>\<open>processFileUpload\<close> or \<^verbatim>\<open>processYouTubeAudio\<close>. The model and decoding options it
  passes on are the selectors' values and are left out.
\<close>

datatype asr_source = Microphone blob | FileUpload js_file | YouTube string

text \<open>The fields of \<^verbatim>\<open>ASRResponse\<close> that the page reads.\<close>

datatype asr_response =
  ASRResponse (success: bool) (resp_transcription: string) (resp_language: string)
    (language_name: string) (model_used: string) (resp_error: "string option")

datatype toast = Toast (title: "string option") (description: string) (destructive: bool)

text \<open>
  The timer callbacks of the page: the body of the progress interval,
  \<^verbatim>\<open>() => setAsrProgress(null)\<close>, \<^verbatim>\<open>() => setIsProcessingASR(false)\<close>, and the simulated
  reply after 1500 ms.
\<close>

datatype chat_action = AsrTick | AsrReset | AsrDone | AiReply

text \<open>
  A pending ASR call with what the code after the \<^verbatim>\<open>await\<close> closes over: the handle
  \<^verbatim>\<open>asrInterval\<close> and the \<^verbatim>\<open>audioBlob\<close> of the render that started it.
\<close>

datatype chat_call =
  AsrCall (asr_id: nat) (asr_interval: nat) (asr_source: asr_source) (asr_blob: "blob option")

text \<open>
  The React state that \<^verbatim>\<open>handleSend\<close> reads or writes, the toasts shown, and the runtime
  (clock, timer queue, pending calls). \<open>chat_emitted\<close> holds the values
  \<^verbatim>\<open>setAsrProgress\<close> has set, in call order. The message list, the response history and
  the persistence of replies are written but never read by \<^verbatim>\<open>handleSend\<close>; they are
  left out, and so are the model selectors.
\<close>

record chat_page =
  input :: string
  isLoading :: bool
  isProcessingASR :: bool
  asrProgress :: "int option"
  backendAvailable :: "bool option"
  detectedLanguage :: "string option"
  audioBlob :: "blob option"
  audioFile :: "js_file option"
  mediaLink :: "string option"
  lastRecordingUrl :: "string option"
  lastTranscription :: "string option"
  toasts :: "toast list"
  chat_now :: nat
  chat_timers :: "chat_action timer list"
  chat_nextTimer :: nat
  chat_calls :: "chat_call list"
  chat_nextCall :: nat
  chat_emitted :: "int option list"

definition Chat_init :: chat_page where
  "Chat_init =
     \<lparr>input = [], isLoading = False, isProcessingASR = False, asrProgress = None,
      backendAvailable = None, detectedLanguage = None, audioBlob = None, audioFile = None,
      mediaLink = None, lastRecordingUrl = None, lastTranscription = None, toasts = [],
      chat_now = 0, chat_timers = [], chat_nextTimer = 1, chat_calls = [],
      chat_nextCall = 0, chat_emitted = []\<rparr>"

text \<open>
  \<^verbatim>\<open>String.prototype.trim\<close> on the ASCII white space (tab, line feed, vertical tab, form
  feed, carriage return, space).
\<close>

definition is_space :: "char \<Rightarrow> bool" where
  "is_space c = (c \<in> set [CHR 0x09, CHR 0x0A, CHR 0x0B, CHR 0x0C, CHR 0x0D, CHR 0x20])"

definition trim :: "string \<Rightarrow> string" where
  "trim s = rev (dropWhile is_space (rev (dropWhile is_space s)))"

definition setAsrProgress :: "(int option \<Rightarrow> int option) \<Rightarrow> chat_page \<Rightarrow> chat_page" where
  "setAsrProgress f s =
     s\<lparr>asrProgress := f (asrProgress s), chat_emitted := chat_emitted s @ [f (asrProgress s)]\<rparr>"

text \<open>
  The updater of the interval; \<^verbatim>\<open>Math.floor(Math.random() * 6)\<close> is \<open>r mod 6\<close>.
  \<^verbatim>\<open>
      if (p === null) return 1
      const next = p + Math.floor(Math.random() * 6) + 2
      return next >= 90 ? 90 : next
  \<close>
\<close>

definition asr_tick :: "nat \<Rightarrow> int option \<Rightarrow> int" where
  "asr_tick r p =
     (case p of
        None \<Rightarrow> 1
      | Some p \<Rightarrow> (let next = p + int (r mod 6) + 2 in if next \<ge> 90 then 90 else next))"

definition chat_setTimer :: "chat_action \<Rightarrow> nat \<Rightarrow> chat_page \<Rightarrow> chat_page" where
  "chat_setTimer a delay s =
     s\<lparr>chat_timers := chat_timers s @ [Timer (chat_nextTimer s) (chat_now s + delay) a],
       chat_nextTimer := Suc (chat_nextTimer s)\<rparr>"

definition showToast :: "toast \<Rightarrow> chat_page \<Rightarrow> chat_page" where
  "showToast t s = s\<lparr>toasts := toasts s @ [t]\<rparr>"

text \<open>\<^verbatim>\<open>audioBlob || audioFile || mediaLink\<close>\<close>

definition hasMedia :: "chat_page \<Rightarrow> bool" where
  "hasMedia s =
     (case audioBlob s of
        Some b \<Rightarrow> True
      | None \<Rightarrow> (case audioFile s of Some f \<Rightarrow> True | None \<Rightarrow> truthy (mediaLink s)))"

text \<open>The branch of the \<^verbatim>\<open>if / else if / else\<close> chain inside the \<^verbatim>\<open>try\<close>.\<close>

definition chooseSource :: "chat_page \<Rightarrow> asr_source option" where
  "chooseSource s =
     (case audioBlob s of
        Some b \<Rightarrow> Some (Microphone b)
      | None \<Rightarrow>
          (case audioFile s of
             Some f \<Rightarrow> Some (FileUpload f)
           | None \<Rightarrow>
               (case mediaLink s of
                  None \<Rightarrow> None
                | Some l \<Rightarrow> if l = [] then None else Some (YouTube l))))"

text \<open>
  The \<^verbatim>\<open>catch\<close> block (it ends in \<^verbatim>\<open>return\<close>; the \<^verbatim>\<open>finally\<close> block still runs):
  \<^verbatim>\<open>
      toast({ title: "ASR processing failed",
              description: error instanceof Error ? error.message : "Unknown error occurred",
              variant: "destructive" })
      setAsrProgress(100)
      setTimeout(() => setAsrProgress(null), 700)
      setIsProcessingASR(false)
      return
  \<close>
\<close>

definition asr_catch :: "thrown \<Rightarrow> chat_page \<Rightarrow> chat_page" where
  "asr_catch e s =
     (let s1 = showToast
                 (Toast (Some ''ASR processing failed'')
                    (case e of Error m \<Rightarrow> m | NotAnError \<Rightarrow> ''Unknown error occurred'')
                    True) s;
          s2 = setAsrProgress (\<lambda>_. Some 100) s1;
          s3 = chat_setTimer AsrReset 700 s2
      in s3\<lparr>isProcessingASR := False\<rparr>)"

text \<open>
  The \<^verbatim>\<open>finally\<close> block:
  \<^verbatim>\<open>
      setAsrProgress(100)
      setTimeout(() => setAsrProgress(null), 700)
      if (asrInterval) clearInterval(asrInterval)
      setTimeout(() => setIsProcessingASR(false), 200)
  \<close>
\<close>

definition asr_finally :: "nat \<Rightarrow> chat_page \<Rightarrow> chat_page" where
  "asr_finally asrInterval s =
     (let s1 = setAsrProgress (\<lambda>_. Some 100) s;
          s2 = chat_setTimer AsrReset 700 s1;
          s3 = (if asrInterval = 0 then s2
                else s2\<lparr>chat_timers := clearTimer asrInterval (chat_timers s2)\<rparr>)
      in chat_setTimer AsrDone 200 s3)"

text \<open>
  The rest of \<^verbatim>\<open>handleSend\<close> after the ASR part: the user message is appended, then
  \<^verbatim>\<open>setInput("")\<close>, \<^verbatim>\<open>setIsLoading(true)\<close>, the media inputs are cleared and the reply
  is scheduled.
\<close>

definition sendMessage :: "chat_page \<Rightarrow> chat_page" where
  "sendMessage s =
     chat_setTimer AiReply 1500
       (s\<lparr>input := [], isLoading := True, audioBlob := None, audioFile := None,
          mediaLink := None\<rparr>)"

text \<open>The success branch inside the \<^verbatim>\<open>try\<close>, after the \<^verbatim>\<open>await\<close>.\<close>

definition asr_success :: "chat_call \<Rightarrow> asr_response \<Rightarrow> chat_page \<Rightarrow> chat_page" where
  "asr_success c r s =
     (let s1 = s\<lparr>detectedLanguage := Some (resp_language r)\<rparr>;
          s2 = (case asr_blob c of
                  None \<Rightarrow> s1
                | Some b \<Rightarrow>
                    (case objectURL b of
                       None \<Rightarrow> s1
                     | Some u \<Rightarrow> s1\<lparr>lastRecordingUrl := Some u\<rparr>));
          s3 = s2\<lparr>lastTranscription := Some (resp_transcription r)\<rparr>
      in showToast
           (Toast (Some ''Transcription completed'')
              (''Detected: '' @ language_name r @ '' | Model: '' @ model_used r) False) s3)"

text \<open>\<^verbatim>\<open>handleSend\<close> from the point where the awaited ASR call settles.\<close>

definition asrSettled :: "chat_call \<Rightarrow> thrown + asr_response \<Rightarrow> chat_page \<Rightarrow> chat_page" where
  "asrSettled c out s =
     (case out of
        Inl e \<Rightarrow> asr_finally (asr_interval c) (asr_catch e s)
      | Inr r \<Rightarrow>
          if success r
          then sendMessage (asr_finally (asr_interval c) (asr_success c r s))
          else asr_finally (asr_interval c)
                 (asr_catch (Error (or_str (resp_error r) ''ASR processing failed'')) s))"

text \<open>\<^verbatim>\<open>handleSend\<close> up to its \<^verbatim>\<open>await\<close> (or to its end, when nothing is awaited).\<close>

definition handleSend :: "chat_page \<Rightarrow> chat_page" where
  "handleSend s =
     (if (trim (input s) = [] \<and> \<not> hasMedia s) \<or> isLoading s \<or> isProcessingASR s then s
      else if hasMedia s then
        (if backendAvailable s = Some True then
           (let asrInterval = chat_nextTimer s;
                s1 = setAsrProgress (\<lambda>_. Some 0) (s\<lparr>isProcessingASR := True\<rparr>);
                s2 = chat_setTimer AsrTick 300 s1
            in case chooseSource s of
                 None \<Rightarrow>
                   asr_finally asrInterval (asr_catch (Error ''No media input provided'') s2)
               | Some src \<Rightarrow>
                   s2\<lparr>chat_calls := chat_calls s2 @
                         [AsrCall (chat_nextCall s2) asrInterval src (audioBlob s)],
                      chat_nextCall := Suc (chat_nextCall s2)\<rparr>)
         else showToast
                (Toast (Some ''Backend not available'')
                   ''Cannot process audio/video. Please start the backend server.'' True) s)
      else sendMessage s)"

datatype chat_event =
    TypeInput string
  | Send
  | AudioReady blob
  | FileSelected js_file
  | LinkSubmit string
  | HealthSettles "thrown + bool"
  | AsrSettles nat "thrown + asr_response"

text \<open>
  \<open>Send\<close> is a click on either Send button or the Enter key: each runs \<^verbatim>\<open>handleSend\<close>,
  whose first line repeats the buttons' \<^verbatim>\<open>disabled\<close> condition. \<open>HealthSettles\<close> is the
  outcome of \<^verbatim>\<open>asrService.checkBackendHealth()\<close>, \<open>AsrSettles k out\<close> settles the pending
  call \<open>k\<close>.
\<close>

definition chat_handle :: "chat_event \<Rightarrow> chat_page \<Rightarrow> chat_page" where
  "chat_handle e s =
     (case e of
        TypeInput v \<Rightarrow> s\<lparr>input := v\<rparr>
      | Send \<Rightarrow> handleSend s
      | AudioReady b \<Rightarrow>
          showToast (Toast None ''Audio recording ready'' False) (s\<lparr>audioBlob := Some b\<rparr>)
      | FileSelected f \<Rightarrow>
          showToast (Toast None (''File '' @ file_name f @ '' selected'') False)
            (s\<lparr>audioFile := Some f\<rparr>)
      | LinkSubmit u \<Rightarrow>
          showToast (Toast None ''Media link added'' False) (s\<lparr>mediaLink := Some u\<rparr>)
      | HealthSettles out \<Rightarrow>
          (case out of
             Inl e \<Rightarrow> s\<lparr>backendAvailable := Some False\<rparr>
           | Inr b \<Rightarrow>
               if b then s\<lparr>backendAvailable := Some True\<rparr>
               else showToast
                      (Toast (Some ''Backend not available'')
                         ''ASR features will not work. Please start the backend server.'' True)
                      (s\<lparr>backendAvailable := Some False\<rparr>))
      | AsrSettles k out \<Rightarrow>
          (case find (\<lambda>c. asr_id c = k) (chat_calls s) of
             None \<Rightarrow> s
           | Some c \<Rightarrow>
               asrSettled c out
                 (s\<lparr>chat_calls := filter (\<lambda>c'. asr_id c' \<noteq> k) (chat_calls s)\<rparr>)))"

definition chat_fire :: "nat \<Rightarrow> chat_action timer \<Rightarrow> chat_page \<Rightarrow> chat_page" where
  "chat_fire r t s =
     (case act t of
        AsrTick \<Rightarrow>
          setAsrProgress (\<lambda>p. Some (asr_tick r p))
            (s\<lparr>chat_timers := reschedule (tid t) 300 (chat_timers s)\<rparr>)
      | AsrReset \<Rightarrow>
          setAsrProgress (\<lambda>_. None) (s\<lparr>chat_timers := clearTimer (tid t) (chat_timers s)\<rparr>)
      | AsrDone \<Rightarrow>
          s\<lparr>chat_timers := clearTimer (tid t) (chat_timers s), isProcessingASR := False\<rparr>
      | AiReply \<Rightarrow>
          s\<lparr>chat_timers := clearTimer (tid t) (chat_timers s), isLoading := False\<rparr>)"

definition chat_step :: "chat_event timed \<Rightarrow> chat_page \<Rightarrow> chat_page option" where
  "chat_step ev s =
     (case ev of
        Fire i r \<Rightarrow>
          (case find (\<lambda>x. tid x = i) (chat_timers s) of
             None \<Rightarrow> None
           | Some t \<Rightarrow>
               if list_ex (\<lambda>x. due x < due t) (chat_timers s) then None
               else Some (chat_fire r t (s\<lparr>chat_now := due t\<rparr>)))
      | At t e \<Rightarrow>
          if t < chat_now s \<or> list_ex (\<lambda>x. due x < t) (chat_timers s) then None
          else Some (chat_handle e (s\<lparr>chat_now := t\<rparr>)))"

text \<open>The values \<^verbatim>\<open>setAsrProgress\<close> sets during one step.\<close>

definition chat_emits :: "chat_event timed \<Rightarrow> chat_page \<Rightarrow> int option list" where
  "chat_emits ev s =
     (case chat_step ev s of
        None \<Rightarrow> []
      | Some s' \<Rightarrow> drop (length (chat_emitted s)) (chat_emitted s'))"


section \<open>Invariants of the timer queues\<close>





section \<open>The lightbox index stays inside its list\<close>

lemma hero_inv_init: "hero_inv Hero_init"
  by (simp add: hero_inv_def Hero_init_def)

lemma hero_inv_step: "hero_inv s \<Longrightarrow> hero_inv (hero_step e s)"
  by (cases e)
     (auto simp: hero_inv_def hero_step_def openPlots_def asrPlots_def mtPlots_def
                 ttsPlots_def prevIndex_def nextIndex_def
           split: option.splits)

lemma hero_inv_run: "hero_inv s \<Longrightarrow> hero_inv (hero_run es s)"
  by (induction es arbitrary: s) (auto intro: hero_inv_step)

lemma clamp_keeps_range:
  assumes "0 \<le> i" and "i < int (length imgs)"
  shows "0 \<le> prevIndex i \<and> prevIndex i < int (length imgs)
       \<and> 0 \<le> nextIndex imgs i \<and> nextIndex imgs i < int (length imgs)"
  using assms by (auto simp: prevIndex_def nextIndex_def)

text \<open>
  C10. In the lightbox the index stays within \<open>[0, evalImages.length - 1]\<close>: opening a
  set of plots puts it at 0, the previous and next updaters map an index of the list to
  an index of the list, and after any sequence of user actions an open lightbox reads
  an element of its list (the read \<^verbatim>\<open>evalImages[evalIndex]\<close> is never out of bounds).
\<close>

theorem lightbox_index_in_bounds:
  "evalIndex (openPlots imgs s) = 0
   \<and> (0 \<le> i \<and> i < int (length imgs) \<longrightarrow>
        0 \<le> prevIndex i \<and> prevIndex i < int (length imgs)
        \<and> 0 \<le> nextIndex imgs i \<and> nextIndex imgs i < int (length imgs))
   \<and> (evalImages (hero_run es Hero_init) = Some imgs \<longrightarrow>
        0 \<le> evalIndex (hero_run es Hero_init)
        \<and> evalIndex (hero_run es Hero_init) \<le> int (length imgs) - 1
        \<and> js_nth imgs (evalIndex (hero_run es Hero_init))
            = Some (imgs ! nat (evalIndex (hero_run es Hero_init))))"
proof -
  have inv: "hero_inv (hero_run es Hero_init)"
    by (rule hero_inv_run) (rule hero_inv_init)
  have open0: "evalIndex (openPlots imgs s) = 0"
    by (simp add: openPlots_def)
  have reach: "evalImages (hero_run es Hero_init) = Some imgs \<longrightarrow>
        0 \<le> evalIndex (hero_run es Hero_init)
        \<and> evalIndex (hero_run es Hero_init) \<le> int (length imgs) - 1
        \<and> js_nth imgs (evalIndex (hero_run es Hero_init))
            = Some (imgs ! nat (evalIndex (hero_run es Hero_init)))"
    using inv by (auto simp: hero_inv_def js_nth_def)
  show ?thesis
    using open0 reach clamp_keeps_range [of i imgs] by blast
qed

theorem lightbox_index_in_bounds_witness:
  "evalImages (hero_run [OpenTtsPlots, ClickNext, ClickNext, ClickPrev, ClickNext] Hero_init)
     = Some ttsPlots
   \<and> evalIndex (hero_run [OpenTtsPlots, ClickNext, ClickNext, ClickPrev, ClickNext] Hero_init)
     = 1
   \<and> js_nth ttsPlots 1 = Some ''/tts_rtf.png''
   \<and> prevIndex 1 = 0 \<and> nextIndex ttsPlots 1 = 1"
  using lightbox_index_in_bounds
    [of ttsPlots Hero_init 1 "[OpenTtsPlots, ClickNext, ClickNext, ClickPrev, ClickNext]"]
  by (simp add: hero_step_def openPlots_def Hero_init_def ttsPlots_def prevIndex_def
        nextIndex_def js_nth_def)

section \<open>chatService: how the promises settle\<close>

lemma authHeader_truthy:
  "truthy token \<Longrightarrow> \<exists>t. token = Some t \<and> authHeader token = [(''Authorization'', ''Bearer '' @ t)]"
  by (auto simp: truthy_def authHeader_def split: option.splits)

lemma authHeader_falsy: "\<not> truthy token \<Longrightarrow> authHeader token = []"
  by (auto simp: truthy_def authHeader_def split: option.splits)

lemma getChats_not_ok:
  "fetch (getChats_request token limit) = Inr res \<Longrightarrow> \<not> ok res \<Longrightarrow>
   getChats token fetch limit
     = Rejected (Error (''Failed to fetch chats: '' @ show_nat (status res)))"
  by (simp add: getChats_def)

lemma getChats_ok:
  "fetch (getChats_request token limit) = Inr res \<Longrightarrow> ok res \<Longrightarrow>
   getChats token fetch limit
     = (case json_result res of Inl e \<Rightarrow> Rejected e | Inr d \<Rightarrow> Resolved d)"
  by (simp add: getChats_def)

lemma saveChat_not_ok:
  "fetch (saveChat_request token msg) = Inr res \<Longrightarrow> \<not> ok res \<Longrightarrow>
   text_result res = Inr body \<Longrightarrow>
   saveChat token fetch msg
     = Rejected (Error (''Failed to save chat: '' @ show_nat (status res) @ '' '' @ body))"
  by (simp add: saveChat_def)

lemma saveChat_ok:
  "fetch (saveChat_request token msg) = Inr res \<Longrightarrow> ok res \<Longrightarrow>
   saveChat token fetch msg
     = (case json_result res of Inl e \<Rightarrow> Rejected e | Inr d \<Rightarrow> Resolved d)"
  by (simp add: saveChat_def)

text \<open>
  C8, as stated, fails. A response that is ok but whose body is not JSON makes
  \<^verbatim>\<open>res.json()\<close> reject, so the promise rejects although the status is ok, and with an
  error that does not carry the status; a rejected \<^verbatim>\<open>fetch\<close> rejects the promise with no
  response at all; and an \<^verbatim>\<open>access_token\<close> that is stored but empty attaches no header.
\<close>

theorem chatService_settles_counterexample:
  "getChats (Some ''tok'')
     (fetch_gives (Inr \<lparr>ok = True, status = 200, text_result = Inr ''<html>'',
                json_result = Inl (Error ''Unexpected token <'')\<rparr>)) 50
     = (Rejected (Error ''Unexpected token <'') :: string settled)
   \<and> saveChat (Some ''tok'')
     (fetch_gives (Inr \<lparr>ok = True, status = 200, text_result = Inr ''<html>'',
                json_result = Inl (Error ''Unexpected token <'')\<rparr>)) ''hello''
     = (Rejected (Error ''Unexpected token <'') :: string settled)
   \<and> getChats (Some ''tok'') (fetch_gives (Inl (Error ''Failed to fetch''))) 50
     = (Rejected (Error ''Failed to fetch'') :: string settled)
   \<and> req_headers (getChats_request (Some []) 50) = []
   \<and> req_headers (saveChat_request (Some []) ''hello'')
     = [(''Content-Type'', ''application/json'')]"
  by (simp add: getChats_def saveChat_def getChats_request_def saveChat_request_def
        authHeader_def fetch_gives_def)

text \<open>
  C8, amended. Whenever \<^verbatim>\<open>fetch\<close> delivers a response that is not ok, the promise
  rejects with an Error whose message ends in (\<^verbatim>\<open>getChats\<close>) or contains
  (\<^verbatim>\<open>saveChat\<close>, once the body text has been read) the decimal status code. When the
  response is ok the promise settles as \<^verbatim>\<open>res.json()\<close> does: it resolves with the
  parsed body, or rejects with the parse error. When \<^verbatim>\<open>fetch\<close> rejects, the promise
  rejects with the same value. The Authorization header \<^verbatim>\<open>Bearer <token>\<close> is attached
  exactly when \<^verbatim>\<open>localStorage\<close> holds a non-empty \<^verbatim>\<open>access_token\<close>.
\<close>

theorem chatService_settles:
  fixes fetch :: "request \<Rightarrow> thrown + 'j response"
  shows
  "(fetch (getChats_request token limit) = Inr res \<and> \<not> ok res \<longrightarrow>
      getChats token fetch limit
        = Rejected (Error (''Failed to fetch chats: '' @ show_nat (status res))))
   \<and> (fetch (getChats_request token limit) = Inr res \<and> ok res \<longrightarrow>
      getChats token fetch limit
        = (case json_result res of Inl e \<Rightarrow> Rejected e | Inr d \<Rightarrow> Resolved d))
   \<and> (fetch (getChats_request token limit) = Inl e \<longrightarrow>
      getChats token fetch limit = Rejected e)
   \<and> (fetch (saveChat_request token msg) = Inr res \<and> \<not> ok res \<and> text_result res = Inr body \<longrightarrow>
      saveChat token fetch msg
        = Rejected (Error (''Failed to save chat: '' @ show_nat (status res) @ '' '' @ body)))
   \<and> (fetch (saveChat_request token msg) = Inr res \<and> ok res \<longrightarrow>
      saveChat token fetch msg
        = (case json_result res of Inl e \<Rightarrow> Rejected e | Inr d \<Rightarrow> Resolved d))
   \<and> (fetch (saveChat_request token msg) = Inl e \<longrightarrow>
      saveChat token fetch msg = Rejected e)
   \<and> (truthy token \<longrightarrow>
        (\<exists>t. token = Some t
           \<and> req_headers (getChats_request token limit) = [(''Authorization'', ''Bearer '' @ t)]
           \<and> req_headers (saveChat_request token msg)
               = [(''Content-Type'', ''application/json''), (''Authorization'', ''Bearer '' @ t)]))
   \<and> (\<not> truthy token \<longrightarrow>
        req_headers (getChats_request token limit) = []
        \<and> req_headers (saveChat_request token msg) = [(''Content-Type'', ''application/json'')])"
proof -
  have hdr1: "truthy token \<longrightarrow>
        (\<exists>t. token = Some t
           \<and> req_headers (getChats_request token limit) = [(''Authorization'', ''Bearer '' @ t)]
           \<and> req_headers (saveChat_request token msg)
               = [(''Content-Type'', ''application/json''), (''Authorization'', ''Bearer '' @ t)])"
    using authHeader_truthy [of token]
    by (auto simp: getChats_request_def saveChat_request_def)
  have hdr2: "\<not> truthy token \<longrightarrow>
        req_headers (getChats_request token limit) = []
        \<and> req_headers (saveChat_request token msg) = [(''Content-Type'', ''application/json'')]"
    using authHeader_falsy [of token]
    by (auto simp: getChats_request_def saveChat_request_def)
  have rej1: "fetch (getChats_request token limit) = Inl e \<longrightarrow>
      getChats token fetch limit = Rejected e"
    by (simp add: getChats_def)
  have rej2: "fetch (saveChat_request token msg) = Inl e \<longrightarrow>
      saveChat token fetch msg = Rejected e"
    by (simp add: saveChat_def)
  show ?thesis
    using hdr1 hdr2 rej1 rej2
      getChats_not_ok [of fetch token limit res] getChats_ok [of fetch token limit res]
      saveChat_not_ok [of fetch token msg res body] saveChat_ok [of fetch token msg res]
    by blast
qed

theorem chatService_settles_witness:
  "getChats (Some ''tok'')
     (fetch_gives (Inr \<lparr>ok = False, status = 404, text_result = Inr ''Not Found'',
                json_result = Inr ''{}''\<rparr>)) 50
     = (Rejected (Error ''Failed to fetch chats: 404'') :: string settled)
   \<and> saveChat (Some ''tok'')
     (fetch_gives (Inr \<lparr>ok = False, status = 404, text_result = Inr ''Not Found'',
                json_result = Inr ''{}''\<rparr>)) ''hello''
     = (Rejected (Error ''Failed to save chat: 404 Not Found'') :: string settled)
   \<and> truthy (Some ''tok'')
   \<and> req_headers (getChats_request (Some ''tok'') 50) = [(''Authorization'', ''Bearer tok'')]"
  using chatService_settles
    [of "fetch_gives (Inr \<lparr>ok = False, status = 404, text_result = Inr ''Not Found'',
                    json_result = Inr ''{}''\<rparr>)"
        "Some ''tok''" 50
        "\<lparr>ok = False, status = 404, text_result = Inr ''Not Found'',
          json_result = Inr ''{}''\<rparr>"
        "Error ''x''" "''hello''" "''Not Found''"]
  by (simp add: truthy_def show_nat.simps fetch_gives_def)


section \<open>The MT page: one stage on its own\<close>

lemmas mt_eval =
  mt_step_def mt_handle_def handleTranslate_def translateSettled_def mt_finally_def
  mt_persist_def mt_fire_def setMtProgress_def mt_setTimer_def mt_tick_def clearTimer_def
  reschedule_def MT_init_def truthy_def or_null_def or_str_def mt_error_message_def Let_def

lemma mt_handle_keeps_source:
  "transcription (mt_handle e s) = transcription s \<and> language (mt_handle e s) = language s
   \<and> audioUrl (mt_handle e s) = audioUrl s"
proof (cases e)
  case ClickTranslate
  then show ?thesis
    by (simp add: mt_handle_def handleTranslate_def setMtProgress_def mt_setTimer_def Let_def
          split: option.splits)
next
  case (TranslateSettles k out)
  then show ?thesis
    by (cases out)
       (simp_all add: mt_handle_def translateSettled_def mt_finally_def mt_persist_def
          setMtProgress_def mt_setTimer_def Let_def split: option.splits)
qed (simp_all add: mt_handle_def)

lemma mt_step_keeps_source:
  assumes "mt_step ev s = Some s'"
  shows "transcription s' = transcription s \<and> language s' = language s
       \<and> audioUrl s' = audioUrl s"
proof (cases ev)
  case (Fire i r)
  with assms show ?thesis
    by (auto simp: mt_step_def mt_fire_def setMtProgress_def
        split: option.splits if_splits mt_action.splits)
next
  case (At t e)
  with assms have "s' = mt_handle e (s\<lparr>mt_now := t\<rparr>)"
    by (auto simp: mt_step_def split: if_splits)
  then show ?thesis
    using mt_handle_keeps_source [of e "s\<lparr>mt_now := t\<rparr>"] by simp
qed

lemma translate_failure_step:
  assumes "find (\<lambda>c. call_id c = k) (mt_calls s) = Some c"
      and "mt_step (At t (TranslateSettles k (Inl e))) s = Some s'"
  shows "result s' = result s \<and> srcLang s' = srcLang s \<and> tgtLang s' = tgtLang s
       \<and> model s' = model s \<and> mt_saved s' = mt_saved s
       \<and> error s' = Some (mt_error_message e) \<and> mtProgress s' = Some 100 \<and> \<not> loading s'"
  using assms
  by (auto simp: mt_step_def mt_handle_def translateSettled_def mt_finally_def
        setMtProgress_def mt_setTimer_def Let_def split: if_splits)


text \<open>
  C2. The MT page needs nothing but a text in its location state: mounted with any
  non-empty text and no language or audio (no ASR stage has run), its source language
  is \<open>en\<close>, a click on Translate issues \<^verbatim>\<open>mtService.translate\<close> for that text with the
  page's defaults, and when the call resolves the translation is the page's result.
\<close>

theorem mt_invocable_alone:
  assumes "txt0 \<noteq> []"
  shows "transcription (MT_init (Some (MtLocation (Some txt0) None None)) tok) = Some txt0
       \<and> srcLang (MT_init (Some (MtLocation (Some txt0) None None)) tok) = ''en''
       \<and> (\<exists>s1. mt_step (At 0 ClickTranslate) (MT_init (Some (MtLocation (Some txt0) None None)) tok)
                 = Some s1
              \<and> mt_calls s1 = [MtCall 0 1 txt0 ''en'' ''hi'' Indictrans]
              \<and> loading s1
              \<and> result (mt_handle (TranslateSettles 0 (Inr res)) s1) = Some (translation res)
              \<and> \<not> loading (mt_handle (TranslateSettles 0 (Inr res)) s1))"
  using assms by (simp add: mt_eval)

theorem mt_invocable_alone_witness:
  "''hello'' \<noteq> []
   \<and> transcription (MT_init (Some (MtLocation (Some ''hello'') None None)) None) = Some ''hello''
   \<and> (\<exists>s1. mt_step (At 0 ClickTranslate) (MT_init (Some (MtLocation (Some ''hello'') None None)) None)
              = Some s1
          \<and> mt_calls s1 = [MtCall 0 1 ''hello'' ''en'' ''hi'' Indictrans]
          \<and> result (mt_handle (TranslateSettles 0 (Inr (MtResponse ''namaste''))) s1)
              = Some ''namaste'')"
  using mt_invocable_alone [of "''hello''" None "MtResponse ''namaste''"] by auto

text \<open>
  C5. When the translate call throws, nothing that an earlier stage delivered is taken
  back: no step of the page ever changes the transcription, the detected language or
  the source audio, and the failing step leaves the displayed translation, the language
  selection and the model as they were; it sets the error message, completes the
  progress and ends loading.
\<close>

theorem mt_failure_keeps_earlier_results:
  "(mt_step ev s = Some s1 \<longrightarrow>
      transcription s1 = transcription s \<and> language s1 = language s
      \<and> audioUrl s1 = audioUrl s)
   \<and> (find (\<lambda>c. call_id c = k) (mt_calls s) = Some c
      \<and> mt_step (At t (TranslateSettles k (Inl e))) s = Some s' \<longrightarrow>
      transcription s' = transcription s \<and> language s' = language s
      \<and> audioUrl s' = audioUrl s \<and> result s' = result s
      \<and> srcLang s' = srcLang s \<and> tgtLang s' = tgtLang s \<and> model s' = model s
      \<and> error s' = Some (mt_error_message e) \<and> mtProgress s' = Some 100 \<and> \<not> loading s')"
  using mt_step_keeps_source [of ev s s1]
    mt_step_keeps_source [of "At t (TranslateSettles k (Inl e))" s s']
    translate_failure_step [of k s c t e s']
  by blast


theorem mt_failure_keeps_earlier_results_witness:
  "\<exists>m m'.
     run mt_step
       [At 0 ClickTranslate, At 100 (TranslateSettles 0 (Inr (MtResponse ''namaste''))), Fire 2 0,
        At 1000 ClickTranslate, Fire 3 1]
       (MT_init (Some (MtLocation (Some ''hello'') (Some ''en'') (Some ''blob:1''))) None) = Some m
     \<and> find (\<lambda>c. call_id c = 1) (mt_calls m) = Some (MtCall 1 3 ''hello'' ''en'' ''hi'' Indictrans)
     \<and> mt_step (At 1400 (TranslateSettles 1 (Inl (Error ''Network Error'')))) m = Some m'
     \<and> result m = Some ''namaste'' \<and> result m' = Some ''namaste''
     \<and> transcription m' = Some ''hello'' \<and> language m' = Some ''en''
     \<and> audioUrl m' = Some ''blob:1'' \<and> error m' = Some ''Network Error''
     \<and> mtProgress m' = Some 100 \<and> \<not> loading m'"
proof -
  have "\<exists>m m'.
     run mt_step
       [At 0 ClickTranslate, At 100 (TranslateSettles 0 (Inr (MtResponse ''namaste''))), Fire 2 0,
        At 1000 ClickTranslate, Fire 3 1]
       (MT_init (Some (MtLocation (Some ''hello'') (Some ''en'') (Some ''blob:1''))) None) = Some m
     \<and> find (\<lambda>c. call_id c = 1) (mt_calls m) = Some (MtCall 1 3 ''hello'' ''en'' ''hi'' Indictrans)
     \<and> mt_step (At 1400 (TranslateSettles 1 (Inl (Error ''Network Error'')))) m = Some m'
     \<and> result m = Some ''namaste'' \<and> transcription m = Some ''hello''
     \<and> language m = Some ''en'' \<and> audioUrl m = Some ''blob:1''"
    by (simp add: mt_eval)
  then obtain m m' where h:
    "run mt_step
       [At 0 ClickTranslate, At 100 (TranslateSettles 0 (Inr (MtResponse ''namaste''))), Fire 2 0,
        At 1000 ClickTranslate, Fire 3 1]
       (MT_init (Some (MtLocation (Some ''hello'') (Some ''en'') (Some ''blob:1''))) None) = Some m"
    "find (\<lambda>c. call_id c = 1) (mt_calls m) = Some (MtCall 1 3 ''hello'' ''en'' ''hi'' Indictrans)"
    "mt_step (At 1400 (TranslateSettles 1 (Inl (Error ''Network Error'')))) m = Some m'"
    "result m = Some ''namaste''" "transcription m = Some ''hello''"
    "language m = Some ''en''" "audioUrl m = Some ''blob:1''"
    by blast
  from mt_failure_keeps_earlier_results
    [of "At 1400 (TranslateSettles 1 (Inl (Error ''Network Error'')))" m m' 1
        "MtCall 1 3 ''hello'' ''en'' ''hi'' Indictrans" 1400 "Error ''Network Error''" m'] h
  have "result m' = Some ''namaste'' \<and> transcription m' = Some ''hello''
     \<and> language m' = Some ''en'' \<and> audioUrl m' = Some ''blob:1''
     \<and> error m' = Some ''Network Error'' \<and> mtProgress m' = Some 100 \<and> \<not> loading m'"
    by (simp add: mt_error_message_def)
  with h show ?thesis by blast
qed


section \<open>The progress ticker\<close>







subsection \<open>MT page: what a step emits, and which timers it keeps\<close>











subsection \<open>Chat page: what a step emits, and which timers it keeps\<close>



































lemmas chat_eval =
  chat_step_def chat_handle_def handleSend_def asrSettled_def asr_success_def
  asr_finally_def asr_catch_def sendMessage_def showToast_def chat_fire_def
  setAsrProgress_def chat_setTimer_def asr_tick_def clearTimer_def reschedule_def
  Chat_init_def hasMedia_def chooseSource_def trim_def is_space_def truthy_def or_str_def
  Let_def







section \<open>The Chat page: the ASR result and what is handed on\<close>

lemma asr_success_step:
  assumes "find (\<lambda>c. asr_id c = k) (chat_calls s) = Some c"
      and "success r"
      and "chat_step (At t (AsrSettles k (Inr r))) s = Some s'"
  shows "toasts s' = toasts s @
           [Toast (Some ''Transcription completed'')
              (''Detected: '' @ language_name r @ '' | Model: '' @ model_used r) False]
       \<and> detectedLanguage s' = Some (resp_language r)
       \<and> lastTranscription s' = Some (resp_transcription r)"
  using assms
  by (auto simp: chat_step_def chat_handle_def asrSettled_def asr_success_def
        asr_finally_def sendMessage_def showToast_def setAsrProgress_def chat_setTimer_def
        Let_def
      split: if_splits option.splits)

text \<open>
  C6. When a pending ASR call resolves with a response whose \<^verbatim>\<open>success\<close> is true, the
  page shows exactly one new toast, titled "Transcription completed", whose description
  is \<open>Detected: X | Model: Y\<close> with \<open>X\<close> the response's \<^verbatim>\<open>language_name\<close> and \<open>Y\<close> its
  \<^verbatim>\<open>model_used\<close>, both copied from the response.
\<close>

theorem asr_success_notification:
  assumes "find (\<lambda>c. asr_id c = k) (chat_calls s) = Some c"
      and "success r"
      and "chat_step (At t (AsrSettles k (Inr r))) s = Some s'"
  shows "toasts s' = toasts s @
           [Toast (Some ''Transcription completed'')
              (''Detected: '' @ language_name r @ '' | Model: '' @ model_used r) False]"
  using asr_success_step [OF assms] by simp

theorem asr_success_notification_witness:
  "\<exists>c c'.
     run chat_step
       [At 0 (HealthSettles (Inr True)), At 5 (FileSelected (File ''speech.wav'')), At 10 Send,
        Fire 1 3] Chat_init = Some c
     \<and> find (\<lambda>c. asr_id c = 0) (chat_calls c)
         = Some (AsrCall 0 1 (FileUpload (File ''speech.wav'')) None)
     \<and> success (ASRResponse True ''namaste duniya'' ''hi'' ''Hindi'' ''whisper'' None)
     \<and> chat_step
          (At 400 (AsrSettles 0
             (Inr (ASRResponse True ''namaste duniya'' ''hi'' ''Hindi'' ''whisper'' None)))) c
         = Some c'
     \<and> toasts c' = toasts c @
         [Toast (Some ''Transcription completed'') ''Detected: Hindi | Model: whisper'' False]"
proof -
  have "\<exists>c c'.
     run chat_step
       [At 0 (HealthSettles (Inr True)), At 5 (FileSelected (File ''speech.wav'')), At 10 Send,
        Fire 1 3] Chat_init = Some c
     \<and> find (\<lambda>c. asr_id c = 0) (chat_calls c)
         = Some (AsrCall 0 1 (FileUpload (File ''speech.wav'')) None)
     \<and> chat_step
          (At 400 (AsrSettles 0
             (Inr (ASRResponse True ''namaste duniya'' ''hi'' ''Hindi'' ''whisper'' None)))) c
         = Some c'"
    by (simp add: chat_eval)
  then obtain c c' where h:
    "run chat_step
       [At 0 (HealthSettles (Inr True)), At 5 (FileSelected (File ''speech.wav'')), At 10 Send,
        Fire 1 3] Chat_init = Some c"
    "find (\<lambda>c. asr_id c = 0) (chat_calls c)
         = Some (AsrCall 0 1 (FileUpload (File ''speech.wav'')) None)"
    "chat_step
          (At 400 (AsrSettles 0
             (Inr (ASRResponse True ''namaste duniya'' ''hi'' ''Hindi'' ''whisper'' None)))) c
         = Some c'"
    by blast
  have ok: "success (ASRResponse True ''namaste duniya'' ''hi'' ''Hindi'' ''whisper'' None)"
    by simp
  from asr_success_notification [OF h(2) ok h(3)]
  have "toasts c' = toasts c @
         [Toast (Some ''Transcription completed'') ''Detected: Hindi | Model: whisper'' False]"
    by simp
  with h ok show ?thesis by blast
qed







section \<open>Runs on which the progress and the in-flight guard go wrong\<close>

text \<open>
  What does hold of one tick and of the bar: a tick never lowers a value that is at most
  90, and the bar never shows more than 100.
\<close>

lemma mt_tick_mono: "p \<le> 90 \<Longrightarrow> p \<le> mt_tick r (Some p)"
  by (simp add: mt_tick_def Let_def)

lemma asr_tick_mono: "p \<le> 90 \<Longrightarrow> p \<le> asr_tick r (Some p)"
  by (simp add: asr_tick_def Let_def)

lemma rendered_le_100: "rendered p \<le> 100"
  by (simp add: rendered_def)

text \<open>
  What the step that settles a pending ASR call sets, whatever the state: 100 once when
  the response is a success, 100 twice when the promise rejects or the response is not a
  success. The MT handler sets it once either way (\<open>mt_settle_emits\<close>).
\<close>

lemma asr_success_emits:
  assumes "find (\<lambda>c. asr_id c = k) (chat_calls s) = Some c"
      and "success r"
      and "chat_step (At t (AsrSettles k (Inr r))) s = Some s'"
  shows "chat_emits (At t (AsrSettles k (Inr r))) s = [Some 100]"
  using assms
  by (auto simp: chat_emits_def chat_step_def chat_handle_def asrSettled_def
        asr_success_def asr_finally_def sendMessage_def showToast_def setAsrProgress_def
        chat_setTimer_def Let_def
      split: if_splits option.splits)

lemma asr_failure_emits:
  assumes "find (\<lambda>c. asr_id c = k) (chat_calls s) = Some c"
      and "out = Inl e \<or> (\<exists>r. out = Inr r \<and> \<not> success r)"
      and "chat_step (At t (AsrSettles k out)) s = Some s'"
  shows "chat_emits (At t (AsrSettles k out)) s = [Some 100, Some 100]"
  using assms
  by (auto simp: chat_emits_def chat_step_def chat_handle_def asrSettled_def
        asr_finally_def asr_catch_def showToast_def setAsrProgress_def chat_setTimer_def
        Let_def
      split: if_splits)

text \<open>The guard in the first line of \<^verbatim>\<open>handleSend\<close>.\<close>

lemma handleSend_guard:
  "(trim (input s) = [] \<and> \<not> hasMedia s) \<or> isLoading s \<or> isProcessingASR s \<Longrightarrow>
   handleSend s = s"
  by (simp add: handleSend_def)

text \<open>
  C3. An ASR call that settles after 900 ms with an error: the interval ticks at 300 and
  600 ms (two values below 100, never decreasing), and the handler then sets 100 twice,
  once in its \<^verbatim>\<open>catch\<close> block and once more in its \<^verbatim>\<open>finally\<close> block, for a rejected
  promise as for a response whose \<^verbatim>\<open>success\<close> is false, and whether or not the tick due
  at 900 ms comes first. On the success path, and in the MT handler, 100 is set once.
\<close>

theorem asr_error_sets_100_twice:
  "map_option chat_emitted
     (run chat_step
        [At 0 (HealthSettles (Inr True)), At 0 (FileSelected (File ''speech.wav'')), At 0 Send,
         Fire 1 0, Fire 1 0, At 900 (AsrSettles 0 (Inl (Error ''Network Error'')))] Chat_init)
     = Some [Some 0, Some 2, Some 4, Some 100, Some 100]
   \<and> map_option chat_emitted
     (run chat_step
        [At 0 (HealthSettles (Inr True)), At 0 (FileSelected (File ''speech.wav'')), At 0 Send,
         Fire 1 0, Fire 1 0, Fire 1 0,
         At 900 (AsrSettles 0 (Inr (ASRResponse False [] [] [] [] (Some ''decode failed''))))]
        Chat_init)
     = Some [Some 0, Some 2, Some 4, Some 6, Some 100, Some 100]
   \<and> map_option chat_emitted
     (run chat_step
        [At 0 (HealthSettles (Inr True)), At 0 (FileSelected (File ''speech.wav'')), At 0 Send,
         Fire 1 0, Fire 1 0,
         At 900 (AsrSettles 0 (Inr (ASRResponse True ''hello'' ''en'' ''English'' ''whisper'' None)))]
        Chat_init)
     = Some [Some 0, Some 2, Some 4, Some 100]
   \<and> map_option mt_emitted
     (run mt_step
        [At 0 ClickTranslate, Fire 1 0, Fire 1 0,
         At 900 (TranslateSettles 0 (Inl (Error ''Network Error'')))]
        (MT_init (Some (MtLocation (Some ''hello'') (Some ''en'') None)) None))
     = Some [Some 0, Some 3, Some 6, Some 100]"
  by (simp add: chat_eval mt_step_def mt_handle_def handleTranslate_def translateSettled_def
        mt_finally_def mt_fire_def setMtProgress_def mt_setTimer_def mt_tick_def MT_init_def
        or_null_def mt_error_message_def)

text \<open>
  C4. A second translation started within 700 ms of the end of the first: the first
  operation's \<^verbatim>\<open>setTimeout(() => setMtProgress(null), 700)\<close> is still pending, fires at
  850 ms while the second call is in flight, and the next tick restarts the value at 1.
  Within the second operation the progress goes 0, 3, 6, null, 1.
\<close>

theorem stale_reset_breaks_monotonicity:
  "map_option (\<lambda>s. (mt_emitted s, map call_id (mt_calls s), loading s, mt_now s))
     (run mt_step
        [At 0 ClickTranslate, At 150 (TranslateSettles 0 (Inr (MtResponse ''namaste''))),
         At 200 ClickTranslate, Fire 3 0, Fire 3 0, Fire 2 0, Fire 3 0]
        (MT_init (Some (MtLocation (Some ''hello'') (Some ''en'') None)) None))
     = Some ([Some 0, Some 100, Some 0, Some 3, Some 6, None, Some 1], [1], True, 1100)"
  by (simp add: mt_eval)

text \<open>
  C9. An ASR call fails at 400 ms; its \<^verbatim>\<open>catch\<close> block clears \<^verbatim>\<open>isProcessingASR\<close> at
  once and its \<^verbatim>\<open>finally\<close> block schedules the same for 600 ms. A retry at 500 ms
  starts a second call; at 600 ms the stale timeout clears the flag of the call in
  flight, so a further Send at 700 ms passes the guard and starts a third call while
  the second is pending: two ASR calls (and two progress intervals) at once.
\<close>

theorem stale_flag_admits_second_call:
  "map_option
     (\<lambda>s. (map asr_id (chat_calls s), map act (chat_timers s), isProcessingASR s, isLoading s))
     (run chat_step
        [At 0 (HealthSettles (Inr True)), At 0 (FileSelected (File ''speech.wav'')), At 0 Send,
         Fire 1 0, At 400 (AsrSettles 0 (Inl (Error ''Network Error''))),
         At 500 Send, Fire 4 0] Chat_init)
     = Some ([1], [AsrReset, AsrReset, AsrTick], False, False)
   \<and> map_option
     (\<lambda>s. (map asr_id (chat_calls s), map act (chat_timers s), isProcessingASR s, isLoading s))
     (run chat_step
        [At 0 (HealthSettles (Inr True)), At 0 (FileSelected (File ''speech.wav'')), At 0 Send,
         Fire 1 0, At 400 (AsrSettles 0 (Inl (Error ''Network Error''))),
         At 500 Send, Fire 4 0, At 700 Send] Chat_init)
     = Some ([1, 2], [AsrReset, AsrReset, AsrTick, AsrTick], True, False)"
  by (simp add: chat_eval)


end
